theory Spec2Isabelle
  imports Main
begin

section \<open>A shallow embedding of datavalidation1.py\<close>

text \<open>
  The program is a Streamlit script over pandas. The embedding keeps the script's own
  functions (\<open>load_data\<close>, \<open>get_validation_rules\<close>, \<open>validate_data\<close>,
  \<open>fix_failed_rows\<close>, \<open>validate_row\<close>, \<open>main\<close>) and writes out the part of pandas,
  \<open>re\<close> and Python they rely on: label and position indexing of a frame, assignment of
  a dict to a row, \<open>str\<close>, \<open>re.match\<close>, and every exception these raise.
  What the operator enters in a widget, what the file readers return and how
  \<open>pd.to_datetime\<close> reads a string are inputs of the model.
\<close>

subsection \<open>Cells and exceptions\<close>

text \<open>
  A cell of a frame: a missing value (\<open>NaN\<close>), a Python \<open>str\<close> or a number.
  Numbers are integers here; floating point cells are not modelled.
\<close>

datatype cell = Null | Str string | Num int

text \<open>
  The exceptions the script can raise, and Streamlit's \<open>st.stop()\<close>. \<open>ValueError\<close>
  stands for the date parser's errors too, which are subclasses of it; \<open>ReaderError\<close>
  for what a pandas reader raises on a file it cannot read.
\<close>

datatype error =
    KeyError
  | IndexError
  | TypeError
  | ValueError
  | UnboundLocalError
  | ReaderError
  | EmptyDataError
  | DuplicateWidgetID
  | StopException

text \<open>Sequencing of a computation that may raise: the first exception ends the run.\<close>

definition and_then :: "error + 'a \<Rightarrow> ('a \<Rightarrow> error + 'b) \<Rightarrow> error + 'b" where
  "and_then m f = (case m of Inl e \<Rightarrow> Inl e | Inr x \<Rightarrow> f x)"

definition isnull :: "cell \<Rightarrow> bool" where
  "isnull v = (v = Null)"

subsection \<open>Python's str on a cell\<close>

definition digit_char :: "nat \<Rightarrow> char" where
  "digit_char d = ''0123456789'' ! (d mod 10)"

fun str_nat :: "nat \<Rightarrow> string" where
  "str_nat n = (if n < 10 then [digit_char n] else str_nat (n div 10) @ [digit_char n])"

definition py_str :: "cell \<Rightarrow> string" where
  "py_str v =
     (case v of
        Null \<Rightarrow> ''nan''
      | Str s \<Rightarrow> s
      | Num i \<Rightarrow> (if i < 0 then CHR ''-'' # str_nat (nat (- i)) else str_nat (nat i)))"

subsection \<open>Regular expressions and re.match\<close>

text \<open>
  A pattern without groups or back references matches a string exactly when the string
  is in the pattern's language, so \<open>re\<close> is modelled by derivatives: \<open>deriv c r\<close> is what
  is left of \<open>r\<close> after reading \<open>c\<close>.
\<close>

datatype regex =
    RNone
  | REps
  | RClass "char list"
  | RSeq regex regex
  | RAlt regex regex
  | RStar regex

fun nullable :: "regex \<Rightarrow> bool" where
  "nullable RNone = False"
| "nullable REps = True"
| "nullable (RClass cs) = False"
| "nullable (RSeq r s) = (nullable r \<and> nullable s)"
| "nullable (RAlt r s) = (nullable r \<or> nullable s)"
| "nullable (RStar r) = True"

fun deriv :: "char \<Rightarrow> regex \<Rightarrow> regex" where
  "deriv c RNone = RNone"
| "deriv c REps = RNone"
| "deriv c (RClass cs) = (if c \<in> set cs then REps else RNone)"
| "deriv c (RSeq r s) =
     (if nullable r then RAlt (RSeq (deriv c r) s) (deriv c s) else RSeq (deriv c r) s)"
| "deriv c (RAlt r s) = RAlt (deriv c r) (deriv c s)"
| "deriv c (RStar r) = RSeq (deriv c r) (RStar r)"

fun derivs :: "regex \<Rightarrow> string \<Rightarrow> regex" where
  "derivs r [] = r"
| "derivs r (c # cs) = derivs (deriv c r) cs"

definition fullmatch :: "regex \<Rightarrow> string \<Rightarrow> bool" where
  "fullmatch r s = nullable (derivs r s)"

definition rplus :: "regex \<Rightarrow> regex" where
  "rplus r = RSeq r (RStar r)"

definition lower_case :: string where "lower_case = ''abcdefghijklmnopqrstuvwxyz''"
definition upper_case :: string where "upper_case = ''ABCDEFGHIJKLMNOPQRSTUVWXYZ''"
definition digits :: string where "digits = ''0123456789''"

text \<open>
  The script's pattern \<^verbatim>\<open>^[a-zA-Z0-9._%+-]+@[a-zA-Z0-9.-]+\.[a-zA-Z]{2,}$\<close>, between
  its two anchors.
\<close>

definition email_body :: regex where
  "email_body =
     RSeq (rplus (RClass (lower_case @ upper_case @ digits @ ''._%+-'')))
    (RSeq (RClass ''@'')
    (RSeq (rplus (RClass (lower_case @ upper_case @ digits @ ''.-'')))
    (RSeq (RClass ''.'')
    (RSeq (RClass (lower_case @ upper_case))
    (RSeq (RClass (lower_case @ upper_case))
          (RStar (RClass (lower_case @ upper_case))))))))"

text \<open>
  \<open>re.match(pattern, s)\<close> for a pattern \<open>^body$\<close>: the match starts at the beginning
  of \<open>s\<close>, and \<open>$\<close> (without \<open>re.MULTILINE\<close>) holds at the end of \<open>s\<close> and also
  just before a newline that is the last character of \<open>s\<close>.
\<close>

definition re_match_anchored :: "regex \<Rightarrow> string \<Rightarrow> bool" where
  "re_match_anchored body s =
     (fullmatch body s \<or> (s \<noteq> [] \<and> last s = CHR 0x0A \<and> fullmatch body (butlast s)))"

definition email_match :: "string \<Rightarrow> bool" where
  "email_match s = re_match_anchored email_body s"

subsection \<open>Dicts\<close>

text \<open>
  A Python dict keeps its keys in insertion order; assigning to a key that is present
  keeps its place.
\<close>

fun dict_set :: "('k \<times> 'v) list \<Rightarrow> 'k \<Rightarrow> 'v \<Rightarrow> ('k \<times> 'v) list" where
  "dict_set [] k v = [(k, v)]"
| "dict_set ((k', v') # d) k v = (if k' = k then (k, v) # d else (k', v') # dict_set d k v)"

definition has_key :: "('k \<times> 'v) list \<Rightarrow> 'k \<Rightarrow> bool" where
  "has_key d k = (map_of d k \<noteq> None)"

definition dict_get :: "('k \<times> 'v) list \<Rightarrow> 'k \<Rightarrow> error + 'v" where
  "dict_get d k = (case map_of d k of None \<Rightarrow> Inl KeyError | Some v \<Rightarrow> Inr v)"

subsection \<open>The DataFrame\<close>

text \<open>
  A frame has named columns and labelled rows; a row holds one cell per column and is
  a Series indexed by the column names. The readers label the rows \<open>0, 1, 2, ...\<close>
  and give the columns distinct names (a repeated name is renamed).
\<close>

type_synonym series = "(string \<times> cell) list"

record dataframe =
  columns :: "string list"
  rows :: "(nat \<times> series) list"

definition cell_at :: "series \<Rightarrow> string \<Rightarrow> cell" where
  "cell_at r col = (case map_of r col of None \<Rightarrow> Null | Some v \<Rightarrow> v)"

text \<open>\<open>df[col]\<close>: the cells of a column, in row order.\<close>

definition getitem :: "dataframe \<Rightarrow> string \<Rightarrow> error + cell list" where
  "getitem df col =
     (if col \<in> set (columns df) then Inr (map (\<lambda>(l, r). cell_at r col) (rows df))
      else Inl KeyError)"

text \<open>\<open>row[col]\<close> on a Series.\<close>

definition series_get :: "series \<Rightarrow> string \<Rightarrow> error + cell" where
  "series_get row col = dict_get row col"

text \<open>\<open>df.loc[idx]\<close>: the row labelled \<open>idx\<close> as a Series over the frame's columns.\<close>

definition loc_row :: "dataframe \<Rightarrow> nat \<Rightarrow> error + series" where
  "loc_row df idx =
     (case map_of (rows df) idx of
        None \<Rightarrow> Inl KeyError
      | Some r \<Rightarrow> Inr (map (\<lambda>c. (c, cell_at r c)) (columns df)))"

text \<open>\<open>df.loc[idx, col]\<close>.\<close>

definition loc_cell :: "dataframe \<Rightarrow> nat \<Rightarrow> string \<Rightarrow> error + cell" where
  "loc_cell df idx col =
     (case map_of (rows df) idx of
        None \<Rightarrow> Inl KeyError
      | Some r \<Rightarrow> (if col \<in> set (columns df) then Inr (cell_at r col) else Inl KeyError))"

text \<open>
  \<open>df.loc[idx] = new_values\<close> with a dict: pandas turns the dict into a Series and
  aligns it with the frame's columns, so a column that is not a key of the dict
  receives \<open>NaN\<close>. A label that the frame does not have appends a row.
\<close>

definition aligned_row :: "string list \<Rightarrow> (string \<times> cell) list \<Rightarrow> series" where
  "aligned_row cols new_values = map (\<lambda>c. (c, cell_at new_values c)) cols"

definition loc_set_row :: "dataframe \<Rightarrow> nat \<Rightarrow> (string \<times> cell) list \<Rightarrow> dataframe" where
  "loc_set_row df idx new_values =
     (let r' = aligned_row (columns df) new_values in
      if idx \<in> set (map fst (rows df))
      then df\<lparr>rows := map (\<lambda>(l, r). if l = idx then (l, r') else (l, r)) (rows df)\<rparr>
      else df\<lparr>rows := rows df @ [(idx, r')]\<rparr>)"

text \<open>\<open>df.iloc[positions]\<close>: rows by position; a position past the last row raises.\<close>

definition iloc :: "dataframe \<Rightarrow> nat list \<Rightarrow> error + dataframe" where
  "iloc df positions =
     (if list_all (\<lambda>i. i < length (rows df)) positions
      then Inr (df\<lparr>rows := map (\<lambda>i. rows df ! i) positions\<rparr>)
      else Inl IndexError)"

text \<open>
  \<open>df.duplicated(subset=[col])\<close>: one flag per row, set when the row's value in the
  column already occurred in an earlier row.
\<close>

fun duplicated_marks :: "cell list \<Rightarrow> cell list \<Rightarrow> bool list" where
  "duplicated_marks seen [] = []"
| "duplicated_marks seen (x # xs) = (x \<in> set seen) # duplicated_marks (x # seen) xs"

definition duplicated :: "dataframe \<Rightarrow> string \<Rightarrow> error + bool list" where
  "duplicated df col = and_then (getitem df col) (\<lambda>xs. Inr (duplicated_marks [] xs))"

text \<open>\<open>.any()\<close> on a Series of booleans.\<close>

definition any :: "bool list \<Rightarrow> bool" where
  "any bs = list_ex (\<lambda>b. b) bs"

subsection \<open>pd.to_datetime\<close>

text \<open>
  How pandas reads a string as a timestamp is an input of the model: \<open>parse s\<close> is the
  timestamp, or \<open>None\<close> when pandas raises on \<open>s\<close>. A missing value becomes \<open>NaT\<close>
  (here \<open>None\<close>), and every comparison with \<open>NaT\<close> is false. A number is a count of
  nanoseconds held in 64 bits: the least 64-bit value is \<open>NaT\<close>, and a number
  outside the 64-bit range raises \<open>OutOfBoundsDatetime\<close>, a \<open>ValueError\<close>.
\<close>

type_synonym date_parser = "string \<Rightarrow> int option"

definition to_datetime :: "date_parser \<Rightarrow> cell \<Rightarrow> error + int option" where
  "to_datetime parse v =
     (case v of
        Null \<Rightarrow> Inr None
      | Num i \<Rightarrow>
          (if i = - (2 ^ 63) then Inr None
           else if - (2 ^ 63) < i \<and> i < 2 ^ 63 then Inr (Some i)
           else Inl ValueError)
      | Str s \<Rightarrow> (case parse s of None \<Rightarrow> Inl ValueError | Some t \<Rightarrow> Inr (Some t)))"

fun to_datetime_series :: "date_parser \<Rightarrow> cell list \<Rightarrow> error + int option list" where
  "to_datetime_series parse [] = Inr []"
| "to_datetime_series parse (v # vs) =
     (case to_datetime parse v of
        Inl e \<Rightarrow> Inl e
      | Inr t \<Rightarrow> (case to_datetime_series parse vs of Inl e \<Rightarrow> Inl e | Inr ts \<Rightarrow> Inr (t # ts)))"

definition dt_ge :: "int option \<Rightarrow> int option \<Rightarrow> bool" where
  "dt_ge a b = (case a of None \<Rightarrow> False | Some x \<Rightarrow> (case b of None \<Rightarrow> False | Some y \<Rightarrow> x \<ge> y))"

text \<open>
  A parser for the examples: a date \<open>YYYY-MM-DD\<close> is read as the number \<open>YYYYMMDD\<close>,
  which orders dates as the calendar does; anything else does not parse.
\<close>

definition digit_val :: "char \<Rightarrow> int option" where
  "digit_val c =
     map_of [(CHR ''0'', 0), (CHR ''1'', 1), (CHR ''2'', 2), (CHR ''3'', 3), (CHR ''4'', 4),
             (CHR ''5'', 5), (CHR ''6'', 6), (CHR ''7'', 7), (CHR ''8'', 8), (CHR ''9'', 9)] c"

fun number_of :: "string \<Rightarrow> int \<Rightarrow> int option" where
  "number_of [] acc = Some acc"
| "number_of (c # cs) acc =
     (case digit_val c of None \<Rightarrow> None | Some d \<Rightarrow> number_of cs (10 * acc + d))"

fun iso_date :: date_parser where
  "iso_date [y1, y2, y3, y4, a, m1, m2, b, d1, d2] =
     (if a = CHR ''-'' \<and> b = CHR ''-''
      then number_of [y1, y2, y3, y4, m1, m2, d1, d2] 0 else None)"
| "iso_date s = None"

subsection \<open>Rules, and what comes from outside\<close>

text \<open>The ten entries of the rule selectbox, in the script's order.\<close>

datatype rule_type =
    Required_fields
  | Data_types
  | String_length
  | Numeric_ranges
  | Categorical_values
  | Date_time_constraints
  | Pattern_matching
  | Unique_values
  | Dependencies_between_columns
  | Custom_validation_functions

type_synonym validation_rules = "(string \<times> rule_type) list"

text \<open>
  The uploaded file is a stream: its name, its bytes and the position up to which it
  has been read. The pandas readers, which the script only calls, read from that
  position on; once a reader has returned, the position is at the end of the bytes.
\<close>

record uploaded_file =
  name :: string
  payload :: string
  position :: nat

definition read_to_end :: "uploaded_file \<Rightarrow> uploaded_file" where
  "read_to_end f = f\<lparr>position := length (payload f)\<rparr>"

record readers =
  read_csv :: "uploaded_file \<Rightarrow> error + dataframe"
  read_excel :: "uploaded_file \<Rightarrow> error + dataframe"
  read_json :: "uploaded_file \<Rightarrow> error + dataframe"

text \<open>
  What the operator does in one pass of the script's loop: the text typed for a cell
  (given the row label, the column and the cell shown), the two checkboxes, the button,
  and the rule chosen for each column when the rules are asked again.
\<close>

record operator =
  text_input :: "nat \<Rightarrow> string \<Rightarrow> cell \<Rightarrow> string"
  confirm_changes :: bool
  save_and_export :: bool
  export_checkbox :: bool
  selectbox :: "string \<Rightarrow> rule_type"

subsection \<open>Streamlit's widgets\<close>

text \<open>
  Within one run of the script Streamlit identifies a widget without a \<open>key\<close> by its
  kind, its label and its initial value, and raises \<open>DuplicateWidgetID\<close> when a
  widget is created that the run has created already.
\<close>

datatype widget =
    File_uploader string
  | Checkbox string
  | Button string
  | Selectbox string
  | Text_input string string

text \<open>Creating one widget, given the widgets created so far.\<close>

definition st_widget :: "widget \<Rightarrow> widget list \<Rightarrow> error + widget list" where
  "st_widget w created =
     (if w \<in> set created then Inl DuplicateWidgetID else Inr (created @ [w]))"

text \<open>
  Creating the widgets of one loop whose labels differ from each other, as the
  selectboxes of \<open>get_validation_rules\<close> do for the distinct columns of a frame.
\<close>

definition st_widgets :: "widget list \<Rightarrow> widget list \<Rightarrow> error + widget list" where
  "st_widgets ws created =
     (if list_ex (\<lambda>w. w \<in> set created) ws then Inl DuplicateWidgetID
      else Inr (created @ ws))"

text \<open>The labels of the script's widgets.\<close>

definition quoted :: "string \<Rightarrow> string" where
  "quoted col = [CHR 0x27] @ col @ [CHR 0x27]"

definition upload_widget :: widget where
  "upload_widget = File_uploader ''Upload a data file''"

definition rule_selectbox :: "string \<Rightarrow> widget" where
  "rule_selectbox col = Selectbox (''Select validation rule for column '' @ quoted col)"

definition confirm_checkbox :: widget where
  "confirm_checkbox = Checkbox ''Confirm changes and export validation results''"

definition save_button :: widget where
  "save_button = Button ''Save and Export''"

definition export_checkbox_widget :: widget where
  "export_checkbox_widget = Checkbox ''Export validation results''"

definition format_selectbox :: widget where
  "format_selectbox = Selectbox ''Select file format''"

subsection \<open>load\_data and get\_validation\_rules\<close>

text \<open>\<open>uploaded_file.name.split(".")[-1]\<close>: what follows the last dot of the name.\<close>

definition file_type :: "string \<Rightarrow> string" where
  "file_type n = rev (takeWhile (\<lambda>c. c \<noteq> CHR ''.'') (rev n))"

definition load_data :: "readers \<Rightarrow> uploaded_file \<Rightarrow> error + dataframe" where
  "load_data rd f =
     (if file_type (name f) = ''csv'' then read_csv rd f
      else if file_type (name f) = ''xlsx'' then read_excel rd f
      else if file_type (name f) = ''json'' then read_json rd f
      else Inl StopException)"

text \<open>
  The dict that \<open>get_validation_rules\<close> returns when its selectboxes are created; the
  callers below create \<open>rule_selectbox col\<close> for every column before they use it.
\<close>

definition get_validation_rules :: "(string \<Rightarrow> rule_type) \<Rightarrow> dataframe \<Rightarrow> validation_rules" where
  "get_validation_rules select df =
     fold (\<lambda>col validation_rules. dict_set validation_rules col (select col)) (columns df) []"

subsection \<open>validate\_data\<close>

definition custom_phone_number_validation :: "cell \<Rightarrow> bool" where
  "custom_phone_number_validation v = True"

text \<open>
  The \<open>if\<close>/\<open>elif\<close> chain of the loop body for one \<open>(col, rule_type)\<close>: the result says
  whether \<open>failed_rows.append(idx)\<close> runs. A rule type without a branch does nothing.
\<close>

definition check_column ::
  "date_parser \<Rightarrow> dataframe \<Rightarrow> validation_rules \<Rightarrow> string \<Rightarrow> rule_type \<Rightarrow> error + bool" where
  "check_column parse df validation_rules col rule_type =
     (case rule_type of
        Required_fields \<Rightarrow>
          and_then (getitem df col) (\<lambda>xs. Inr (any (map isnull xs)))
      | Unique_values \<Rightarrow>
          and_then (duplicated df col) (\<lambda>marks. Inr (any marks))
      | Dependencies_between_columns \<Rightarrow>
          (if has_key validation_rules ''Start Date'' \<and> has_key validation_rules ''End Date''
           then and_then (getitem df ''Start Date'') (\<lambda>starts.
                and_then (to_datetime_series parse starts) (\<lambda>ss.
                and_then (getitem df ''End Date'') (\<lambda>ends.
                and_then (to_datetime_series parse ends) (\<lambda>es.
                Inr (any (map (\<lambda>(a, b). dt_ge a b) (zip ss es)))))))
           else Inr False)
      | Pattern_matching \<Rightarrow>
          (if col = ''Email Address''
           then and_then (getitem df col) (\<lambda>xs.
                Inr (any (map (\<lambda>x. \<not> email_match (py_str x)) xs)))
           else Inr False)
      | Custom_validation_functions \<Rightarrow>
          (if col = ''Phone Number''
           then and_then (getitem df col) (\<lambda>xs.
                Inr (any (map (\<lambda>x. \<not> custom_phone_number_validation x) xs)))
           else Inr False)
      | _ \<Rightarrow> Inr False)"

text \<open>
  The loop \<open>for idx, (col, rule_type) in enumerate(validation_rules.items())\<close>, from
  position \<open>idx\<close> on, with the list \<open>failed_rows\<close> built so far.
\<close>

fun validate_loop ::
  "date_parser \<Rightarrow> dataframe \<Rightarrow> validation_rules \<Rightarrow> nat \<Rightarrow> (string \<times> rule_type) list
     \<Rightarrow> nat list \<Rightarrow> error + nat list" where
  "validate_loop parse df validation_rules idx [] failed_rows = Inr failed_rows"
| "validate_loop parse df validation_rules idx ((col, rule_type) # items) failed_rows =
     (case check_column parse df validation_rules col rule_type of
        Inl e \<Rightarrow> Inl e
      | Inr failed \<Rightarrow>
          validate_loop parse df validation_rules (Suc idx) items
            (if failed then failed_rows @ [idx] else failed_rows))"

text \<open>
  \<open>validate_data\<close> receives the frame by reference, so the model returns the frame as
  the call leaves it, next to the returned list. After the loop the script displays
  \<open>df.iloc[failed_rows]\<close> when the list is not empty.
\<close>

definition validate_data ::
  "date_parser \<Rightarrow> dataframe \<Rightarrow> validation_rules \<Rightarrow> error + (dataframe \<times> nat list)" where
  "validate_data parse df validation_rules =
     and_then (validate_loop parse df validation_rules 0 validation_rules []) (\<lambda>failed_rows.
       if length failed_rows > 0
       then and_then (iloc df failed_rows) (\<lambda>shown. Inr (df, failed_rows))
       else Inr (df, failed_rows))"

subsection \<open>validate\_row\<close>

text \<open>
  One pass of the loop of \<open>validate_row\<close>: the result says whether \<open>return False\<close>
  runs. \<open>Series.duplicated\<close> has no parameter \<open>subset\<close>, so the call under
  \<open>Unique values\<close> raises \<open>TypeError\<close>; \<open>re.match\<close> raises \<open>TypeError\<close> on a value
  that is not a string.
\<close>

definition check_cell ::
  "date_parser \<Rightarrow> series \<Rightarrow> validation_rules \<Rightarrow> string \<Rightarrow> rule_type \<Rightarrow> error + bool" where
  "check_cell parse row validation_rules col rule_type =
     (case rule_type of
        Required_fields \<Rightarrow>
          and_then (series_get row col) (\<lambda>v. Inr (isnull v))
      | Unique_values \<Rightarrow> Inl TypeError
      | Dependencies_between_columns \<Rightarrow>
          (if has_key validation_rules ''Start Date'' \<and> has_key validation_rules ''End Date''
           then and_then (series_get row ''Start Date'') (\<lambda>start.
                and_then (to_datetime parse start) (\<lambda>s.
                and_then (series_get row ''End Date'') (\<lambda>end.
                and_then (to_datetime parse end) (\<lambda>e.
                Inr (dt_ge s e)))))
           else Inr False)
      | Pattern_matching \<Rightarrow>
          (if col = ''Email Address''
           then and_then (series_get row col) (\<lambda>v.
                  case v of Str s \<Rightarrow> Inr (\<not> email_match s) | _ \<Rightarrow> Inl TypeError)
           else Inr False)
      | Custom_validation_functions \<Rightarrow>
          (if col = ''Phone Number''
           then and_then (series_get row col) (\<lambda>v. Inr (\<not> custom_phone_number_validation v))
           else Inr False)
      | _ \<Rightarrow> Inr False)"

fun validate_row_loop ::
  "date_parser \<Rightarrow> series \<Rightarrow> validation_rules \<Rightarrow> (string \<times> rule_type) list \<Rightarrow> error + bool" where
  "validate_row_loop parse row validation_rules [] = Inr True"
| "validate_row_loop parse row validation_rules ((col, rule_type) # items) =
     (case check_cell parse row validation_rules col rule_type of
        Inl e \<Rightarrow> Inl e
      | Inr failed \<Rightarrow>
          (if failed then Inr False else validate_row_loop parse row validation_rules items))"

definition validate_row :: "date_parser \<Rightarrow> series \<Rightarrow> validation_rules \<Rightarrow> error + bool" where
  "validate_row parse row validation_rules =
     validate_row_loop parse row validation_rules validation_rules"

subsection \<open>fix\_failed\_rows\<close>

text \<open>
  The text input of line 137 for row \<open>idx\<close> and column \<open>col\<close>: its label names the
  column, its initial value is the cell shown, as text.
\<close>

definition value_input :: "string \<Rightarrow> cell \<Rightarrow> widget" where
  "value_input col shown = Text_input (''Enter value for '' @ quoted col) (py_str shown)"

text \<open>
  The inner loop over \<open>df.columns\<close> that fills the dict \<open>new_values\<close> for the row
  \<open>idx\<close>: a column under \<open>Required fields\<close> gets what the operator types, shown the
  current cell; no other column gets an entry. \<open>inputs\<close> are the text inputs that the
  call of \<open>fix_failed_rows\<close> has created so far.
\<close>

fun collect_new_values ::
  "(nat \<Rightarrow> string \<Rightarrow> cell \<Rightarrow> string) \<Rightarrow> dataframe \<Rightarrow> validation_rules \<Rightarrow> nat \<Rightarrow> string list
     \<Rightarrow> (string \<times> cell) list \<Rightarrow> widget list \<Rightarrow> error + ((string \<times> cell) list \<times> widget list)" where
  "collect_new_values ask df validation_rules idx [] new_values inputs = Inr (new_values, inputs)"
| "collect_new_values ask df validation_rules idx (col # cols) new_values inputs =
     (case dict_get validation_rules col of
        Inl e \<Rightarrow> Inl e
      | Inr rule_type \<Rightarrow>
          (if rule_type = Required_fields
           then (case loc_cell df idx col of
                   Inl e \<Rightarrow> Inl e
                 | Inr shown \<Rightarrow>
                     (case st_widget (value_input col shown) inputs of
                        Inl e \<Rightarrow> Inl e
                      | Inr inputs' \<Rightarrow>
                          collect_new_values ask df validation_rules idx cols
                            (dict_set new_values col (Str (ask idx col shown))) inputs'))
           else collect_new_values ask df validation_rules idx cols new_values inputs))"

text \<open>The body of the outer loop for one \<open>idx\<close>: the frame after the row assignment.\<close>

definition fix_row ::
  "(nat \<Rightarrow> string \<Rightarrow> cell \<Rightarrow> string) \<Rightarrow> dataframe \<Rightarrow> validation_rules \<Rightarrow> nat \<Rightarrow> widget list
     \<Rightarrow> error + (dataframe \<times> widget list)" where
  "fix_row ask df validation_rules idx inputs =
     and_then (collect_new_values ask df validation_rules idx (columns df) [] inputs)
       (\<lambda>(new_values, inputs'). Inr (loc_set_row df idx new_values, inputs'))"

text \<open>\<open>validate_row(df.loc[idx], validation_rules)\<close>, the check of one row of the frame.\<close>

definition recheck_row :: "date_parser \<Rightarrow> dataframe \<Rightarrow> validation_rules \<Rightarrow> nat \<Rightarrow> error + bool" where
  "recheck_row parse df validation_rules idx =
     and_then (loc_row df idx) (\<lambda>row. validate_row parse row validation_rules)"

fun fix_loop ::
  "date_parser \<Rightarrow> (nat \<Rightarrow> string \<Rightarrow> cell \<Rightarrow> string) \<Rightarrow> dataframe \<Rightarrow> validation_rules \<Rightarrow> nat list
     \<Rightarrow> nat list \<Rightarrow> widget list \<Rightarrow> error + (dataframe \<times> nat list)" where
  "fix_loop parse ask df validation_rules [] new_failed_rows inputs = Inr (df, new_failed_rows)"
| "fix_loop parse ask df validation_rules (idx # failed_rows) new_failed_rows inputs =
     (case fix_row ask df validation_rules idx inputs of
        Inl e \<Rightarrow> Inl e
      | Inr (df', inputs') \<Rightarrow>
          (case recheck_row parse df' validation_rules idx of
             Inl e \<Rightarrow> Inl e
           | Inr ok \<Rightarrow>
               fix_loop parse ask df' validation_rules failed_rows
                 (if \<not> ok then new_failed_rows @ [idx] else new_failed_rows) inputs'))"

text \<open>
  \<open>fix_failed_rows\<close> is the only place that creates text inputs, so the call starts
  with none of them created.
\<close>

definition fix_failed_rows ::
  "date_parser \<Rightarrow> (nat \<Rightarrow> string \<Rightarrow> cell \<Rightarrow> string) \<Rightarrow> dataframe \<Rightarrow> nat list \<Rightarrow> validation_rules
     \<Rightarrow> error + (dataframe \<times> nat list)" where
  "fix_failed_rows parse ask df failed_rows validation_rules =
     fix_loop parse ask df validation_rules failed_rows [] []"

subsection \<open>main\<close>

text \<open>
  The local variables of \<open>main\<close> that its loop reads and writes, and what the run has
  done so far. \<open>failed_rows\<close> is \<open>None\<close> while no assignment to it has run;
  \<open>exported\<close> collects what \<open>export_validation_results\<close> wrote; \<open>widgets\<close> are the
  widgets created outside \<open>fix_failed_rows\<close>.
\<close>

record locals =
  df :: dataframe
  failed_rows :: "nat list option"
  validation_rules :: validation_rules
  exported :: "dataframe list"
  widgets :: "widget list"

text \<open>
  \<open>export_validation_results\<close>: its checkbox, and when that is ticked the format
  selectbox and the file written. The result is what was written and the widgets
  created.
\<close>

definition export_validation_results ::
  "operator \<Rightarrow> dataframe \<Rightarrow> nat list \<Rightarrow> widget list \<Rightarrow> error + (dataframe list \<times> widget list)" where
  "export_validation_results op d failed created =
     and_then (st_widget export_checkbox_widget created) (\<lambda>created1.
       if export_checkbox op
       then and_then (st_widget format_selectbox created1) (\<lambda>created2. Inr ([d], created2))
       else Inr ([], created1))"

text \<open>
  One pass of \<open>while True\<close>, lines 18 to 34. \<open>f\<close> is the upload as the earlier call
  of \<open>load_data\<close> left it. The reload of lines 28 to 30 reads the upload again and
  creates the rule selectboxes again.
\<close>

definition loop_body ::
  "date_parser \<Rightarrow> readers \<Rightarrow> uploaded_file \<Rightarrow> operator \<Rightarrow> locals \<Rightarrow> error + locals" where
  "loop_body parse rd f op st =
     (case failed_rows st of
        None \<Rightarrow> Inl UnboundLocalError
      | Some failed \<Rightarrow>
          and_then (fix_failed_rows parse (text_input op) (df st) failed (validation_rules st))
            (\<lambda>(df1, failed1).
          and_then (st_widget confirm_checkbox (widgets st)) (\<lambda>w1.
          and_then (st_widget save_button w1) (\<lambda>w2.
          and_then (if save_and_export op \<and> confirm_changes op
                    then and_then (export_validation_results op df1 failed1 w2)
                           (\<lambda>(written, w). Inr (exported st @ written, w))
                    else Inr (exported st, w2))
            (\<lambda>(out, w3).
          and_then (if \<not> confirm_changes op
                    then and_then (load_data rd f) (\<lambda>df2.
                         and_then (st_widgets (map rule_selectbox (columns df2)) w3) (\<lambda>w.
                           Inr (df2, get_validation_rules (selectbox op) df2, w)))
                    else Inr (df1, validation_rules st, w3))
            (\<lambda>(df3, rules3, w4).
          and_then (validate_data parse df3 rules3) (\<lambda>(df4, discarded).
          Inr \<lparr>df = df4, failed_rows = Some [], validation_rules = rules3, exported = out,
               widgets = w4\<rparr>)))))))"

text \<open>
  \<open>while True\<close> never ends by itself. \<open>main_loop\<close> runs one pass per entry of the
  list of operator actions and gives the locals after the last of them, or the first
  exception.
\<close>

fun main_loop ::
  "date_parser \<Rightarrow> readers \<Rightarrow> uploaded_file \<Rightarrow> operator list \<Rightarrow> locals \<Rightarrow> error + locals" where
  "main_loop parse rd f [] st = Inr st"
| "main_loop parse rd f (op # ops) st =
     (case loop_body parse rd f op st of
        Inl e \<Rightarrow> Inl e
      | Inr st' \<Rightarrow> main_loop parse rd f ops st')"

text \<open>
  \<open>main\<close>: without a file nothing happens (\<open>None\<close>). With a file the script loads it,
  asks for the rules and calls \<open>validate_data\<close> without keeping what it returns, so
  the loop starts with \<open>failed_rows\<close> unassigned, with the upload read to its end, and
  with the file uploader and the rule selectboxes created.
\<close>

definition main ::
  "date_parser \<Rightarrow> readers \<Rightarrow> (string \<Rightarrow> rule_type) \<Rightarrow> uploaded_file option \<Rightarrow> operator list
     \<Rightarrow> error + locals option" where
  "main parse rd select upload ops =
     (case upload of
        None \<Rightarrow> Inr None
      | Some f \<Rightarrow>
          and_then (load_data rd f) (\<lambda>df0.
          and_then (st_widgets (map rule_selectbox (columns df0)) [upload_widget]) (\<lambda>w0.
          let rules0 = get_validation_rules select df0 in
          and_then (validate_data parse df0 rules0) (\<lambda>(df1, discarded).
          and_then
            (main_loop parse rd (read_to_end f) ops
               \<lparr>df = df1, failed_rows = None, validation_rules = rules0, exported = [],
                widgets = w0\<rparr>)
            (\<lambda>st. Inr (Some st))))))"

subsection \<open>Tables, files and operators of the examples\<close>

definition table_required :: dataframe where
  "table_required =
     \<lparr>columns = [''c''],
      rows = [(0, [(''c'', Str ''x'')]), (1, [(''c'', Null)]), (2, [(''c'', Str ''y'')])]\<rparr>"

definition table_one_null :: dataframe where
  "table_one_null = \<lparr>columns = [''c''], rows = [(0, [(''c'', Null)])]\<rparr>"

definition rules_required :: validation_rules where
  "rules_required = [(''c'', Required_fields)]"

definition table_unique :: dataframe where
  "table_unique =
     \<lparr>columns = [''id''],
      rows = [(0, [(''id'', Str ''A'')]), (1, [(''id'', Str ''A'')]), (2, [(''id'', Str ''B'')])]\<rparr>"

definition rules_unique :: validation_rules where
  "rules_unique = [(''id'', Unique_values)]"

definition table_fix :: dataframe where
  "table_fix =
     \<lparr>columns = [''a'', ''b''], rows = [(0, [(''a'', Null), (''b'', Str ''keep'')])]\<rparr>"

definition rules_fix :: validation_rules where
  "rules_fix = [(''a'', Required_fields), (''b'', String_length)]"

definition table_email :: dataframe where
  "table_email =
     \<lparr>columns = [''Email Address''],
      rows = [(0, [(''Email Address'', Str ''a@b.com'')]),
              (1, [(''Email Address'', Str ''bad'')])]\<rparr>"

definition table_email_newline :: dataframe where
  "table_email_newline =
     \<lparr>columns = [''Email Address''],
      rows = [(0, [(''Email Address'', Str (''a@b.com'' @ [CHR 0x0A]))])]\<rparr>"

definition table_email_null :: dataframe where
  "table_email_null =
     \<lparr>columns = [''n'', ''Email Address''],
      rows = [(0, [(''n'', Num 1), (''Email Address'', Null)]),
              (1, [(''n'', Num 2), (''Email Address'', Str ''a@b.com'')])]\<rparr>"

definition table_email_one_null :: dataframe where
  "table_email_one_null =
     \<lparr>columns = [''n'', ''Email Address''],
      rows = [(0, [(''n'', Num 1), (''Email Address'', Null)])]\<rparr>"

definition rules_email :: validation_rules where
  "rules_email = [(''Email Address'', Pattern_matching)]"

definition rules_email_null :: validation_rules where
  "rules_email_null = [(''n'', Numeric_ranges), (''Email Address'', Pattern_matching)]"

definition table_dates :: dataframe where
  "table_dates =
     \<lparr>columns = [''Start Date'', ''End Date''],
      rows = [(0, [(''Start Date'', Str ''2024-01-02''), (''End Date'', Str ''2024-01-01'')])]\<rparr>"

definition table_dates3 :: dataframe where
  "table_dates3 =
     \<lparr>columns = [''Start Date'', ''End Date''],
      rows = [(0, [(''Start Date'', Str ''2024-01-01''), (''End Date'', Str ''2024-02-01'')]),
              (1, [(''Start Date'', Str ''2024-03-01''), (''End Date'', Str ''2024-04-01'')]),
              (2, [(''Start Date'', Str ''2024-06-02''), (''End Date'', Str ''2024-06-01'')])]\<rparr>"

definition table_bad_date :: dataframe where
  "table_bad_date =
     \<lparr>columns = [''Start Date'', ''End Date''],
      rows = [(0, [(''Start Date'', Str ''soon''), (''End Date'', Str ''2024-01-01'')])]\<rparr>"

definition rules_dependency_first :: validation_rules where
  "rules_dependency_first =
     [(''Start Date'', Dependencies_between_columns), (''End Date'', Required_fields)]"

definition rules_dependency_second :: validation_rules where
  "rules_dependency_second =
     [(''Start Date'', Required_fields), (''End Date'', Dependencies_between_columns)]"

text \<open>
  Readers that stand for pandas on a csv file holding the table \<open>t\<close>: \<open>read_csv\<close>
  gives \<open>t\<close> while bytes are left to read and raises \<open>EmptyDataError\<close> at the end
  of the upload.
\<close>

definition csv_readers :: "dataframe \<Rightarrow> readers" where
  "csv_readers t =
     \<lparr>read_csv = (\<lambda>f. if position f < length (payload f) then Inr t else Inl EmptyDataError),
      read_excel = (\<lambda>f. Inl ReaderError),
      read_json = (\<lambda>f. Inl ReaderError)\<rparr>"

definition data_csv :: uploaded_file where
  "data_csv =
     \<lparr>name = ''data.csv'', payload = ''c'' @ [CHR 0x0A, CHR 0x22, CHR 0x22, CHR 0x0A],
      position = 0\<rparr>"

definition all_required :: "string \<Rightarrow> rule_type" where
  "all_required col = Required_fields"

definition types_v :: "nat \<Rightarrow> string \<Rightarrow> cell \<Rightarrow> string" where
  "types_v idx col shown = ''v''"

definition types_C :: "nat \<Rightarrow> string \<Rightarrow> cell \<Rightarrow> string" where
  "types_C idx col shown = ''C''"

definition operator_declines :: operator where
  "operator_declines =
     \<lparr>text_input = types_v, confirm_changes = False, save_and_export = False,
      export_checkbox = False, selectbox = all_required\<rparr>"

definition operator_confirms :: operator where
  "operator_confirms =
     \<lparr>text_input = types_v, confirm_changes = True, save_and_export = False,
      export_checkbox = False, selectbox = all_required\<rparr>"

definition locals_empty_list :: locals where
  "locals_empty_list =
     \<lparr>df = table_one_null, failed_rows = Some [], validation_rules = rules_required,
      exported = [], widgets = [upload_widget, rule_selectbox ''c'']\<rparr>"

definition locals_after_pass :: locals where
  "locals_after_pass =
     \<lparr>df = table_one_null, failed_rows = Some [], validation_rules = rules_required,
      exported = [],
      widgets = [upload_widget, rule_selectbox ''c'', confirm_checkbox, save_button]\<rparr>"

section \<open>Properties\<close>

subsection \<open>Helper lemmas\<close>

lemma validate_data_frame: "validate_data parse d rules = Inr (d1, out1) \<Longrightarrow> d1 = d"
  by (auto simp: validate_data_def and_then_def split: sum.splits if_splits)

lemma fix_failed_rows_nil: "fix_failed_rows parse ask d [] rules = Inr (d, [])"
  by (simp add: fix_failed_rows_def)

lemma rule_selectboxes_new:
  "st_widgets (map rule_selectbox cols) [upload_widget]
     = Inr ([upload_widget] @ map rule_selectbox cols)"
  by (auto simp: st_widgets_def list_ex_iff upload_widget_def rule_selectbox_def)

lemma loop_body_resets:
  "loop_body parse rd f op st = Inr st' \<Longrightarrow> failed_rows st' = Some []"
  by (auto simp: loop_body_def and_then_def split: option.splits sum.splits prod.splits if_splits)

lemma loop_body_ignores_text:
  "failed_rows st = None \<or> failed_rows st = Some [] \<Longrightarrow>
   loop_body parse rd f (op\<lparr>text_input := ask\<rparr>) st = loop_body parse rd f op st"
  by (auto simp: loop_body_def fix_failed_rows_def export_validation_results_def cong: if_cong)

lemma main_loop_ignores_text:
  "failed_rows st = None \<or> failed_rows st = Some [] \<Longrightarrow>
   main_loop parse rd f (map (\<lambda>op. op\<lparr>text_input := ask\<rparr>) ops) st = main_loop parse rd f ops st"
proof (induction ops arbitrary: st)
  case Nil
  then show ?case by simp
next
  case (Cons op ops)
  have b: "loop_body parse rd f (op\<lparr>text_input := ask\<rparr>) st = loop_body parse rd f op st"
    using Cons.prems by (rule loop_body_ignores_text)
  show ?case
  proof (cases "loop_body parse rd f op st")
    case (Inl e)
    with b show ?thesis by simp
  next
    case (Inr st')
    then have "failed_rows st' = Some []" by (rule loop_body_resets)
    then have "main_loop parse rd f (map (\<lambda>op. op\<lparr>text_input := ask\<rparr>) ops) st'
                 = main_loop parse rd f ops st'"
      using Cons.IH by blast
    with b Inr show ?thesis by simp
  qed
qed

lemma main_loop_resets:
  "main_loop parse rd f (op # ops) st = Inr st' \<Longrightarrow> failed_rows st' = Some []"
proof (induction ops arbitrary: op st)
  case Nil
  then show ?case by (auto split: sum.splits dest: loop_body_resets)
next
  case (Cons op' ops)
  from Cons.prems obtain st1 where "loop_body parse rd f op st = Inr st1"
    and "main_loop parse rd f (op' # ops) st1 = Inr st'"
    by (auto split: sum.splits)
  with Cons.IH show ?case by blast
qed

lemma main_first_pass: "main parse rd select (Some f) (op # ops) \<noteq> Inr r"
  by (auto simp: main_def and_then_def loop_body_def Let_def rule_selectboxes_new
           split: sum.splits prod.splits)

lemma main_unbound:
  "load_data rd f = Inr d0 \<Longrightarrow>
   validate_data parse d0 (get_validation_rules select d0) = Inr (d1, out) \<Longrightarrow>
   main parse rd select (Some f) (op # ops) = Inl UnboundLocalError"
  by (simp add: main_def and_then_def loop_body_def Let_def rule_selectboxes_new)

subsection \<open>The claims\<close>

text \<open>
  Claim C1 (the failing set of a Required rule is the set of row indices with an empty
  cell; for the column \<open>["x", null, "y"]\<close> it is \<open>{1}\<close>). The script evaluated at the
  claim's own table: \<open>validate_data\<close> returns \<open>[0]\<close>, the position of the column among the
  rules, where the claim expects row \<open>1\<close>; the row check of \<open>validate_row\<close> does fail
  row \<open>1\<close> only.
\<close>

theorem required_reports_column_position:
  "validate_data iso_date table_required rules_required = Inr (table_required, [0])
   \<and> map (recheck_row iso_date table_required rules_required) [0, 1, 2]
       = [Inr True, Inr False, Inr True]"
  by code_simp

text \<open>
  Claim C2 (a full run and a row-by-row run over all rows give the same outcome).
  The script evaluated on three tables. With an empty Required cell in row \<open>1\<close> of the
  only column, the full run reports \<open>[0]\<close> and the row-by-row check fails row \<open>1\<close>.
  With an empty cell in row \<open>0\<close> of the second column, \<open>Email Address\<close>, the full run
  reports \<open>[1]\<close>, the column's position, and the row check raises \<open>TypeError\<close> on row
  \<open>0\<close>, since \<open>validate_row\<close> passes the cell to \<open>re.match\<close> without \<open>str\<close>. Under
  \<open>Unique values\<close> the row check raises on every row.
\<close>

theorem full_and_row_runs_disagree:
  "validate_data iso_date table_required rules_required = Inr (table_required, [0])
   \<and> map (recheck_row iso_date table_required rules_required) [0, 1, 2]
       = [Inr True, Inr False, Inr True]
   \<and> validate_data iso_date table_email_null rules_email_null = Inr (table_email_null, [1])
   \<and> map (recheck_row iso_date table_email_null rules_email_null) [0, 1]
       = [Inl TypeError, Inr True]
   \<and> validate_data iso_date table_unique rules_unique = Inr (table_unique, [0])
   \<and> map (recheck_row iso_date table_unique rules_unique) [0, 1, 2]
       = [Inl TypeError, Inl TypeError, Inl TypeError]"
  by code_simp

text \<open>
  Claim C3 (under Unique values the column \<open>[A, A, B]\<close> fails rows \<open>0\<close> and \<open>1\<close>, and
  after row \<open>1\<close> is fixed to \<open>C\<close> the re-validation of that row reports all rows passing).
  The script evaluated there: the full run returns \<open>[0]\<close>, and fixing row \<open>1\<close> ends in
  \<open>TypeError\<close>, raised by \<open>row.duplicated(subset=[col])\<close> in \<open>validate_row\<close>.
\<close>

theorem unique_values_row_check_raises:
  "validate_data iso_date table_unique rules_unique = Inr (table_unique, [0])
   \<and> fix_failed_rows iso_date types_C table_unique [1] rules_unique = Inl TypeError"
  by code_simp

text \<open>
  Claim C5 (a fix changes only the submitted cells). The script evaluated on a row
  with an empty Required cell in column \<open>a\<close> and the text \<open>keep\<close> in column \<open>b\<close>: after
  the operator types \<open>v\<close> for \<open>a\<close>, the assignment of the dict to the row has put \<open>NaN\<close>
  in column \<open>b\<close>, which was not submitted.
\<close>

theorem fix_erases_other_columns:
  "fix_failed_rows iso_date types_v table_fix [0] rules_fix
     = Inr (\<lparr>columns = [''a'', ''b''], rows = [(0, [(''a'', Str ''v''), (''b'', Null)])]\<rparr>, [])"
  by code_simp

text \<open>
  Claim C6 (Pattern matching fails a cell exactly when the string does not fully match;
  for \<open>["a@b.com", "bad"]\<close> the failing set is \<open>{1}\<close>). The script evaluated: on the
  claim's table the run returns \<open>[0]\<close>, the position of the column; and a valid address
  followed by a newline does not fully match the pattern, yet \<open>re.match\<close> accepts it
  and the run reports nothing.
\<close>

theorem pattern_reports_column_and_accepts_newline:
  "validate_data iso_date table_email rules_email = Inr (table_email, [0])
   \<and> \<not> fullmatch email_body (''a@b.com'' @ [CHR 0x0A])
   \<and> email_match (''a@b.com'' @ [CHR 0x0A])
   \<and> validate_data iso_date table_email_newline rules_email = Inr (table_email_newline, [])"
  by code_simp

text \<open>
  Claim C7 (a dependency rule fails the row whose start is not before its end when both
  partner columns are declared, and is a no-op otherwise). The script evaluated: with
  the rule on the second column of the claim's one-row table the run ends in
  \<open>IndexError\<close>, raised by \<open>df.iloc[[1]]\<close>; on a table whose only offending row is row
  \<open>2\<close> the run reports \<open>[0]\<close>, the position of the rule's column. The row check
  does fail the offending row.
\<close>

theorem dependency_reports_column_position:
  "validate_data iso_date table_dates rules_dependency_second = Inl IndexError
   \<and> validate_data iso_date table_dates3 rules_dependency_first = Inr (table_dates3, [0])
   \<and> map (recheck_row iso_date table_dates3 rules_dependency_first) [0, 1, 2]
       = [Inr True, Inr True, Inr False]"
  by code_simp

text \<open>
  Claim C8 (no cell aborts a validation run; a cell that cannot be coerced is a failure
  of its rule and the evaluation goes on). The script evaluated on cells that cannot
  be coerced. On a one-row table with an empty cell under Pattern matching,
  \<open>validate_data\<close> does count the cell as a failure of the rule, through \<open>str\<close>, but
  the run then ends in \<open>IndexError\<close>: what it recorded is the position \<open>1\<close> of the
  column, which \<open>df.iloc\<close> takes for a row. On the same cell \<open>validate_row\<close> ends in
  \<open>TypeError\<close>, since it passes the cell to \<open>re.match\<close> without \<open>str\<close>. A start date
  that does not parse ends both the full run and the row check in \<open>ValueError\<close>.
\<close>

theorem uncoercible_cell_aborts_run:
  "check_column iso_date table_email_one_null rules_email_null ''Email Address'' Pattern_matching
     = Inr True
   \<and> validate_data iso_date table_email_one_null rules_email_null = Inl IndexError
   \<and> recheck_row iso_date table_email_one_null rules_email_null 0 = Inl TypeError
   \<and> validate_data iso_date table_bad_date rules_dependency_first = Inl ValueError
   \<and> recheck_row iso_date table_bad_date rules_dependency_first 0 = Inl ValueError"
  by code_simp

text \<open>
  Claim C9 (validation is idempotent): a run of \<open>validate_data\<close> that returns leaves
  the table as it was, and a second run on the table it leaves returns the same
  failing list.
\<close>

theorem validate_data_idempotent:
  "validate_data parse d rules = Inr (d1, out1) \<Longrightarrow>
     d1 = d \<and> validate_data parse d1 rules = Inr (d1, out1)"
  using validate_data_frame by blast

text \<open>Witness for C9: the two runs on the table of e-mail addresses.\<close>

theorem validate_data_idempotent_witness:
  "validate_data iso_date table_email rules_email = Inr (table_email, [0])"
proof -
  have h: "validate_data iso_date table_email rules_email = Inr (table_email, [0])"
    by code_simp
  from validate_data_idempotent [OF h] show ?thesis by simp
qed

text \<open>
  Claim C10 (the failing list of \<open>validate_data\<close> never reaches the fix step): with a
  file and at least one pass of the loop \<open>main\<close> never returns normally; when the load
  and the first validation succeed, whatever list the validation returned, the first
  pass raises \<open>UnboundLocalError\<close> at the use of \<open>failed_rows\<close>; after any number of
  completed passes \<open>failed_rows\<close> is \<open>[]\<close>; from a state in which \<open>failed_rows\<close> is
  unassigned or empty, what the operator types into the fix inputs has no effect on
  any later state; and the fix step on an empty list changes nothing and reports
  nothing.
\<close>

theorem fix_step_never_gets_failing_list:
  "(\<forall>r. main parse rd select (Some f) (op # ops) \<noteq> Inr r)
   \<and> (load_data rd f = Inr d0
        \<and> validate_data parse d0 (get_validation_rules select d0) = Inr (d1, out)
      \<longrightarrow> main parse rd select (Some f) (op # ops) = Inl UnboundLocalError)
   \<and> (main_loop parse rd f (op # ops) st = Inr st' \<longrightarrow> failed_rows st' = Some [])
   \<and> (failed_rows st = None \<or> failed_rows st = Some []
      \<longrightarrow> main_loop parse rd f (map (\<lambda>p. p\<lparr>text_input := ask\<rparr>) ops) st
            = main_loop parse rd f ops st)
   \<and> fix_failed_rows parse ask d [] rules = Inr (d, [])"
proof (intro conjI allI impI)
  show "main parse rd select (Some f) (op # ops) \<noteq> Inr r" for r
    by (rule main_first_pass)
  show "main parse rd select (Some f) (op # ops) = Inl UnboundLocalError"
    if "load_data rd f = Inr d0
        \<and> validate_data parse d0 (get_validation_rules select d0) = Inr (d1, out)"
    using that main_unbound by blast
  show "failed_rows st' = Some []" if "main_loop parse rd f (op # ops) st = Inr st'"
    using that by (rule main_loop_resets)
  show "main_loop parse rd f (map (\<lambda>p. p\<lparr>text_input := ask\<rparr>) ops) st
          = main_loop parse rd f ops st"
    if "failed_rows st = None \<or> failed_rows st = Some []"
    using that by (rule main_loop_ignores_text)
  show "fix_failed_rows parse ask d [] rules = Inr (d, [])"
    by (rule fix_failed_rows_nil)
qed

text \<open>
  Witness for C10: a file whose table has an empty Required cell. The validation
  returns \<open>[0]\<close> and \<open>main\<close> raises \<open>UnboundLocalError\<close>; a pass that starts with an
  empty list and a confirmed checkbox ends with an empty list; and from that start
  the text typed has no effect on a pass.
\<close>

theorem fix_step_never_gets_failing_list_witness:
  "main iso_date (csv_readers table_one_null) all_required (Some data_csv) [operator_confirms]
     = Inl UnboundLocalError
   \<and> main_loop iso_date (csv_readers table_one_null) (read_to_end data_csv)
       [operator_confirms] locals_empty_list = Inr locals_after_pass
   \<and> failed_rows locals_after_pass = Some []
   \<and> main_loop iso_date (csv_readers table_one_null) (read_to_end data_csv)
       (map (\<lambda>p. p\<lparr>text_input := types_C\<rparr>) [operator_declines]) locals_empty_list
     = main_loop iso_date (csv_readers table_one_null) (read_to_end data_csv)
       [operator_declines] locals_empty_list"
proof -
  have l: "load_data (csv_readers table_one_null) data_csv = Inr table_one_null"
    by code_simp
  have v: "validate_data iso_date table_one_null (get_validation_rules all_required table_one_null)
             = Inr (table_one_null, [0])"
    by code_simp
  have m: "main_loop iso_date (csv_readers table_one_null) (read_to_end data_csv)
             [operator_confirms] locals_empty_list = Inr locals_after_pass"
    by code_simp
  have e: "failed_rows locals_empty_list = Some []"
    by code_simp
  from fix_step_never_gets_failing_list
    [where parse = iso_date and rd = "csv_readers table_one_null" and select = all_required
       and f = data_csv and op = operator_confirms and ops = "[]"
       and ?d0.0 = table_one_null and ?d1.0 = table_one_null and out = "[0]"]
    l v
  have first: "main iso_date (csv_readers table_one_null) all_required (Some data_csv)
                 [operator_confirms] = Inl UnboundLocalError"
    by simp
  from fix_step_never_gets_failing_list
    [where parse = iso_date and rd = "csv_readers table_one_null"
       and f = "read_to_end data_csv" and op = operator_confirms and ops = "[]"
       and st = locals_empty_list and st' = locals_after_pass]
    m
  have reset: "failed_rows locals_after_pass = Some []"
    by simp
  from fix_step_never_gets_failing_list
    [where parse = iso_date and rd = "csv_readers table_one_null"
       and f = "read_to_end data_csv" and ops = "[operator_declines]"
       and st = locals_empty_list and ask = types_C]
    e
  have same: "main_loop iso_date (csv_readers table_one_null) (read_to_end data_csv)
                (map (\<lambda>p. p\<lparr>text_input := types_C\<rparr>) [operator_declines]) locals_empty_list
              = main_loop iso_date (csv_readers table_one_null) (read_to_end data_csv)
                [operator_declines] locals_empty_list"
    by simp
  from first m reset same show ?thesis by simp
qed

end
